theory Spec2Isabelle
  imports Complex_Main
begin

section \<open>JavaScript numbers as the game loop uses them\<close>

text \<open>
  Every numeric field of the game loop has the TypeScript type \<open>number\<close>. A property the
  object does not have reads as \<open>undefined\<close>, arithmetic on \<open>undefined\<close> gives \<open>NaN\<close>,
  and every ordering comparison with \<open>NaN\<close> is false. These three cases decide what the
  engine does on the zone catalog, so they are kept apart.

  A finite number is an IEEE 754 double, that is a rational \<open>m * 2^e\<close> with
  \<open>|m| < 2^53\<close> and \<open>e \<ge> -1074\<close>. Every arithmetic operation computes the exact
  result and rounds it to the nearest double, ties to the even mantissa; \<open>fl\<close> is this
  rounding. A decimal literal of the source (\<open>0.1\<close>, \<open>0.95\<close>) denotes the double
  nearest to it. Results of magnitude \<open>2^1024\<close> and more, which JavaScript rounds to an
  infinity, and the sign of zero are outside the model.
\<close>

definition pow2 :: "int \<Rightarrow> rat" where
  "pow2 e = (if 0 \<le> e then 2 ^ nat e else 1 / 2 ^ nat (- e))"

text \<open>The nearest integer, a tie going to the even one.\<close>

definition round_even :: "rat \<Rightarrow> int" where
  "round_even q =
     (let f = \<lfloor>q\<rfloor>; r = q - of_int f
      in if r < 1/2 then f else if 1/2 < r then f + 1 else if even f then f else f + 1)"

text \<open>
  The binary exponent of a positive rational: \<open>ilog2 x\<close> is the integer \<open>k\<close> with
  \<open>2^k \<le> x < 2^(k+1)\<close>, found by halving from above 2 and by doubling from below 1.
\<close>

function expo_up :: "rat \<Rightarrow> int" where
  "expo_up x = (if x < 2 then 0 else expo_up (x / 2) + 1)"
  by pat_completeness auto
termination
proof (relation "measure (\<lambda>x. nat \<lceil>x\<rceil>)")
  show "wf (measure (\<lambda>x::rat. nat \<lceil>x\<rceil>))" by simp
next
  fix x :: rat
  assume "\<not> x < 2"
  then have x: "2 \<le> x" by simp
  have a: "x \<le> of_int \<lceil>x\<rceil>" by (rule le_of_int_ceiling)
  then have b: "(2::rat) \<le> of_int \<lceil>x\<rceil>" using x by linarith
  have "x / 2 \<le> of_int \<lceil>x\<rceil> - 1" using a b by linarith
  then have "x / 2 \<le> of_int (\<lceil>x\<rceil> - 1)" by simp
  then have "\<lceil>x / 2\<rceil> < \<lceil>x\<rceil>" by (simp only: ceiling_less_iff)
  moreover have "0 < \<lceil>x\<rceil>" using b by linarith
  ultimately show "(x / 2, x) \<in> measure (\<lambda>x. nat \<lceil>x\<rceil>)" by simp
qed

function expo_down :: "rat \<Rightarrow> int" where
  "expo_down x = (if x \<le> 0 \<or> 1 \<le> x then 0 else expo_down (2 * x) - 1)"
  by pat_completeness auto
termination
proof (relation "measure (\<lambda>x. nat \<lceil>1 / x\<rceil>)")
  show "wf (measure (\<lambda>x::rat. nat \<lceil>1 / x\<rceil>))" by simp
next
  fix x :: rat
  assume "\<not> (x \<le> 0 \<or> 1 \<le> x)"
  then have x: "0 < x" "x < 1" by simp_all
  define y where "y = 1 / x"
  have y: "1 < y" unfolding y_def using x by simp
  have e: "1 / (2 * x) = y / 2" unfolding y_def by simp
  have a: "y \<le> of_int \<lceil>y\<rceil>" by (rule le_of_int_ceiling)
  then have "(1::rat) < of_int \<lceil>y\<rceil>" using y by linarith
  then have c: "1 < \<lceil>y\<rceil>" by linarith
  then have b: "(2::rat) \<le> of_int \<lceil>y\<rceil>" by linarith
  have "y / 2 \<le> of_int \<lceil>y\<rceil> - 1" using a b by linarith
  then have "y / 2 \<le> of_int (\<lceil>y\<rceil> - 1)" by simp
  then have "\<lceil>y / 2\<rceil> < \<lceil>y\<rceil>" by (simp only: ceiling_less_iff)
  with c show "(2 * x, x) \<in> measure (\<lambda>x. nat \<lceil>1 / x\<rceil>)"
    unfolding in_measure e y_def [symmetric] by linarith
qed

definition ilog2 :: "rat \<Rightarrow> int" where
  "ilog2 x = (if 1 \<le> x then expo_up x else expo_down x)"

text \<open>
  Rounding to the nearest double: the mantissa is taken at the exponent that gives it
  53 bits, and not below the exponent \<open>-1074\<close> of the subnormal doubles.
\<close>

definition fl :: "rat \<Rightarrow> rat" where
  "fl x = (if x = 0 then 0
           else let e = max (ilog2 \<bar>x\<bar> - 52) (- 1074)
                in sgn x * of_int (round_even (\<bar>x\<bar> / pow2 e)) * pow2 e)"

datatype jsnum = Undefined | NaN | Num rat

fun toNumber :: "jsnum \<Rightarrow> rat option" where
  "toNumber Undefined = None"
| "toNumber NaN = None"
| "toNumber (Num x) = Some x"

definition jadd :: "jsnum \<Rightarrow> jsnum \<Rightarrow> jsnum" where
  "jadd a b = (case toNumber a of None \<Rightarrow> NaN
     | Some x \<Rightarrow> (case toNumber b of None \<Rightarrow> NaN | Some y \<Rightarrow> Num (fl (x + y))))"

definition jsub :: "jsnum \<Rightarrow> jsnum \<Rightarrow> jsnum" where
  "jsub a b = (case toNumber a of None \<Rightarrow> NaN
     | Some x \<Rightarrow> (case toNumber b of None \<Rightarrow> NaN | Some y \<Rightarrow> Num (fl (x - y))))"

definition jmul :: "jsnum \<Rightarrow> jsnum \<Rightarrow> jsnum" where
  "jmul a b = (case toNumber a of None \<Rightarrow> NaN
     | Some x \<Rightarrow> (case toNumber b of None \<Rightarrow> NaN | Some y \<Rightarrow> Num (fl (x * y))))"

definition jlt :: "jsnum \<Rightarrow> jsnum \<Rightarrow> bool" where
  "jlt a b = (case toNumber a of None \<Rightarrow> False
     | Some x \<Rightarrow> (case toNumber b of None \<Rightarrow> False | Some y \<Rightarrow> x < y))"

definition jgt :: "jsnum \<Rightarrow> jsnum \<Rightarrow> bool" where
  "jgt a b = (case toNumber a of None \<Rightarrow> False
     | Some x \<Rightarrow> (case toNumber b of None \<Rightarrow> False | Some y \<Rightarrow> x > y))"

definition jge :: "jsnum \<Rightarrow> jsnum \<Rightarrow> bool" where
  "jge a b = (case toNumber a of None \<Rightarrow> False
     | Some x \<Rightarrow> (case toNumber b of None \<Rightarrow> False | Some y \<Rightarrow> x \<ge> y))"

text \<open>\<open>Math.min\<close> and \<open>Math.max\<close> return \<open>NaN\<close> as soon as one argument is \<open>NaN\<close>.\<close>

definition Math_min :: "jsnum \<Rightarrow> jsnum \<Rightarrow> jsnum" where
  "Math_min a b = (case toNumber a of None \<Rightarrow> NaN
     | Some x \<Rightarrow> (case toNumber b of None \<Rightarrow> NaN | Some y \<Rightarrow> Num (min x y)))"

definition Math_max :: "jsnum \<Rightarrow> jsnum \<Rightarrow> jsnum" where
  "Math_max a b = (case toNumber a of None \<Rightarrow> NaN
     | Some x \<Rightarrow> (case toNumber b of None \<Rightarrow> NaN | Some y \<Rightarrow> Num (max x y)))"

text \<open>
  \<open>xs[i]\<close> on a JavaScript array: \<open>undefined\<close> (here \<open>None\<close>) outside the range.
\<close>

definition js_index :: "'a list \<Rightarrow> int \<Rightarrow> 'a option" where
  "js_index xs i = (if 0 \<le> i \<and> i < int (length xs) then Some (xs ! nat i) else None)"

section \<open>The zone catalog (levels/index.ts)\<close>

text \<open>
  A record field stands for a property of the JavaScript object. The catalog's literals
  carry \<open>id\<close>, \<open>name\<close>, \<open>type\<close>, \<open>difficulty\<close> for an encounter and \<open>id\<close>, \<open>guardian\<close>,
  \<open>color\<close>, \<open>encounters\<close>, \<open>requiredLevel\<close> for a zone. The game loop reads
  \<open>agent_name\<close>, \<open>level\<close>, \<open>moves\<close>, \<open>xp_reward\<close> of an encounter and \<open>required_level\<close>
  of a zone: these are fields of their own, \<open>Undefined\<close> or \<open>None\<close> on an object that
  lacks the property. The display texts (\<open>description\<close>, \<open>reward\<close>, the zone's \<open>name\<close>)
  are read by no operation of the engine and are left out. Field names carry the
  prefix of their record since \<open>id\<close>, \<open>name\<close> and \<open>level\<close> occur in several of them.
\<close>

datatype difficulty = trivial | normal | hard | legendary

record Encounter =
  e_id :: string
  e_name :: string
  e_type :: string
  e_difficulty :: difficulty
  e_agent_name :: "string option"
  e_level :: jsnum
  e_moves :: "string list option"
  e_xp_reward :: jsnum

record Zone =
  z_id :: string
  z_guardian :: string
  z_color :: string
  z_requiredLevel :: rat
  z_encounters :: "Encounter list"
  z_required_level :: jsnum

text \<open>An encounter literal of the catalog: the four properties the literal has.\<close>

definition catalog_encounter :: "string \<Rightarrow> string \<Rightarrow> string \<Rightarrow> difficulty \<Rightarrow> Encounter" where
  "catalog_encounter i n t d =
     \<lparr>e_id = i, e_name = n, e_type = t, e_difficulty = d,
      e_agent_name = None, e_level = Undefined, e_moves = None, e_xp_reward = Undefined\<rparr>"

text \<open>A zone literal of the catalog: it has \<open>requiredLevel\<close> and no \<open>required_level\<close>.\<close>

definition catalog_zone :: "string \<Rightarrow> string \<Rightarrow> string \<Rightarrow> rat \<Rightarrow> Encounter list \<Rightarrow> Zone" where
  "catalog_zone i g c r es =
     \<lparr>z_id = i, z_guardian = g, z_color = c, z_requiredLevel = r,
      z_encounters = es, z_required_level = Undefined\<rparr>"

text \<open>The encounters that the concrete runs below name are constants of their own.\<close>

definition paradox_daemon :: Encounter where
  "paradox_daemon = catalog_encounter ''paradox-daemon'' ''Paradox Daemon'' ''logic'' normal"

definition stack_spirit :: Encounter where
  "stack_spirit = catalog_encounter ''stack-spirit'' ''Stack Spirit'' ''logic'' hard"

definition lucidia_sentinel :: Encounter where
  "lucidia_sentinel =
     catalog_encounter ''lucidia-sentinel'' ''Lucidia Sentinel'' ''logic'' legendary"

definition routing_ghost :: Encounter where
  "routing_ghost = catalog_encounter ''routing-ghost'' ''Routing Ghost'' ''gateway'' normal"

definition recursion_depths :: Zone where
  "recursion_depths = catalog_zone ''recursion-depths'' ''LUCIDIA'' ''#9C27B0'' 1
     [paradox_daemon, stack_spirit, lucidia_sentinel]"

definition gateway_nexus :: Zone where
  "gateway_nexus = catalog_zone ''gateway-nexus'' ''ALICE'' ''#2979FF'' 1
     [routing_ghost,
      catalog_encounter ''deadlock-wraith'' ''Deadlock Wraith'' ''gateway'' hard,
      catalog_encounter ''alice-avatar'' ''ALICE Avatar'' ''gateway'' legendary]"

definition compute_forge :: Zone where
  "compute_forge = catalog_zone ''compute-forge'' ''OCTAVIA'' ''#F5A623'' 5
     [catalog_encounter ''heat-elemental'' ''Heat Elemental'' ''compute'' normal,
      catalog_encounter ''gpu-golem'' ''GPU Golem'' ''compute'' hard,
      catalog_encounter ''octavia-construct'' ''OCTAVIA Construct'' ''compute'' legendary]"

definition crystal_observatory :: Zone where
  "crystal_observatory = catalog_zone ''crystal-observatory'' ''PRISM'' ''#00BCD4'' 8
     [catalog_encounter ''pattern-mimic'' ''Pattern Mimic'' ''vision'' normal,
      catalog_encounter ''anomaly-shade'' ''Anomaly Shade'' ''vision'' hard,
      catalog_encounter ''prism-oracle'' ''PRISM Oracle'' ''vision'' legendary]"

definition archive_sanctum :: Zone where
  "archive_sanctum = catalog_zone ''archive-sanctum'' ''ECHO'' ''#4CAF50'' 12
     [catalog_encounter ''forgotten-thought'' ''Forgotten Thought'' ''memory'' trivial,
      catalog_encounter ''echo-fragment'' ''Echo Fragment'' ''memory'' normal,
      catalog_encounter ''echo-prime'' ''ECHO Prime'' ''memory'' legendary]"

definition vault_terminus :: Zone where
  "vault_terminus = catalog_zone ''vault-terminus'' ''CIPHER'' ''#FF1D6C'' 20
     [catalog_encounter ''intrusion-daemon'' ''Intrusion Daemon'' ''security'' hard,
      catalog_encounter ''zero-day-shade'' ''Zero Day Shade'' ''security'' hard,
      catalog_encounter ''cipher-final'' ''CIPHER Final Form'' ''security'' legendary]"

definition ZONES :: "Zone list" where
  "ZONES = [recursion_depths, gateway_nexus, compute_forge, crystal_observatory,
            archive_sanctum, vault_terminus]"

text \<open>\<open>ZONES.find(z => z.id === id)\<close>: the first zone with that id, if any.\<close>

definition getZone :: "string \<Rightarrow> Zone option" where
  "getZone i = find (\<lambda>z. z_id z = i) ZONES"

definition getZonesForLevel :: "rat \<Rightarrow> Zone list" where
  "getZonesForLevel lv = filter (\<lambda>z. z_requiredLevel z \<le> lv) ZONES"

section \<open>The game loop (class GameLoop)\<close>

record CapturedAgent =
  a_id :: string
  a_name :: "string option"
  a_type :: string
  a_level :: jsnum
  a_moves :: "string list option"
  a_hp :: jsnum
  a_max_hp :: jsnum

text \<open>
  The player's \<open>level\<close> is only ever assigned 1 and \<open>level + 1\<close>, so it is a plain
  number; \<open>xp\<close> receives \<open>xp += amount\<close> with an amount read from an encounter, so it can
  become \<open>NaN\<close>.
\<close>

record PlayerState =
  level :: rat
  xp :: jsnum
  agents_captured :: "string list"
  current_zone :: string
  position :: "rat \<times> rat \<times> rat"
  party :: "CapturedAgent list"

datatype GameEvent =
    EvEncounter "Encounter option"
  | EvZoneEnter Zone
  | EvCapture CapturedAgent
  | EvBattleWin rat
  | EvLevelUp rat

text \<open>
  A listener is a function supplied by the caller; the engine only compares listeners
  by identity (\<open>l !== listener\<close>) and calls them. A listener is modelled by its identity,
  a natural number. What a call of it does is given by the environment, a value of type
  \<open>handlers\<close>: for a listener and an event, the listeners whose unsubscribe functions
  the call invokes (possibly its own). Each call is recorded in \<open>delivered\<close>, which
  is the observable trace of the engine and no field of the class. Listeners that call
  back into the other operations of the engine are outside this model.
\<close>

type_synonym handlers = "nat \<Rightarrow> GameEvent \<Rightarrow> nat list"

record GameLoop =
  player :: PlayerState
  listeners :: "nat list"
  running :: bool
  tickRate :: nat
  delivered :: "(nat \<times> GameEvent) list"

definition GameLoop_new :: "string \<Rightarrow> GameLoop" where
  "GameLoop_new playerName =
     \<lparr>player = \<lparr>level = 1, xp = Num 0, agents_captured = [],
                current_zone = ''recursion-depths'', position = (0, 0, 0), party = []\<rparr>,
      listeners = [], running = False, tickRate = 60, delivered = []\<rparr>"

text \<open>\<open>on\<close> pushes the listener; the function it returns is \<open>unsubscribe\<close> of that listener.\<close>

definition on :: "nat \<Rightarrow> GameLoop \<Rightarrow> GameLoop" where
  "on listener g = g\<lparr>listeners := listeners g @ [listener]\<rparr>"

definition unsubscribe :: "nat \<Rightarrow> GameLoop \<Rightarrow> GameLoop" where
  "unsubscribe listener g = g\<lparr>listeners := filter (\<lambda>l. l \<noteq> listener) (listeners g)\<rparr>"

text \<open>One call \<open>l(event)\<close>: the call is recorded, then the listener's unsubscribes run.\<close>

definition call_listener :: "handlers \<Rightarrow> GameEvent \<Rightarrow> nat \<Rightarrow> GameLoop \<Rightarrow> GameLoop" where
  "call_listener h event l g =
     fold unsubscribe (h l event) (g\<lparr>delivered := delivered g @ [(l, event)]\<rparr>)"

text \<open>
  \<open>this.listeners.forEach(l => l(event))\<close> walks the array that the field holds when
  \<open>emit\<close> starts; \<open>unsubscribe\<close> assigns a new array to the field and leaves that one
  as it is.
\<close>

definition emit :: "handlers \<Rightarrow> GameEvent \<Rightarrow> GameLoop \<Rightarrow> GameLoop" where
  "emit h event g = fold (call_listener h event) (listeners g) g"

definition getCurrentZone :: "GameLoop \<Rightarrow> Zone option" where
  "getCurrentZone g = find (\<lambda>z. z_id z = current_zone (player g)) ZONES"

text \<open>The \<open>console.warn\<close> of the level gate is not part of the state and is left out.\<close>

definition enterZone :: "handlers \<Rightarrow> string \<Rightarrow> GameLoop \<Rightarrow> bool \<times> GameLoop" where
  "enterZone h zoneId g =
     (case find (\<lambda>z. z_id z = zoneId) ZONES of
        None \<Rightarrow> (False, g)
      | Some zone \<Rightarrow>
          if jlt (Num (level (player g))) (z_required_level zone) then (False, g)
          else (True, emit h (EvZoneEnter zone)
                        (g\<lparr>player := (player g)\<lparr>current_zone := zoneId\<rparr>\<rparr>)))"

definition eligibleEncounters :: "GameLoop \<Rightarrow> Zone \<Rightarrow> Encounter list" where
  "eligibleEncounters g zone =
     filter (\<lambda>e. e_id e \<notin> set (agents_captured (player g))) (z_encounters zone)"

text \<open>
  The optional argument \<open>encounterId\<close> is tested for truthiness: \<open>undefined\<close> and the
  empty string both take the random branch.
\<close>

fun truthy :: "string option \<Rightarrow> bool" where
  "truthy None = False"
| "truthy (Some s) = (s \<noteq> [])"

definition findEncounter :: "string option \<Rightarrow> Zone \<Rightarrow> Encounter option" where
  "findEncounter encounterId zone =
     find (\<lambda>e. Some (e_id e) = encounterId) (z_encounters zone)"

text \<open>
  \<open>random\<close> is the value \<open>Math.random()\<close> returns, a double in \<open>[0,1)\<close>, so at most
  \<open>1 - 2^-53\<close>. The index is \<open>Math.floor\<close> of the rounded product. The result \<open>None\<close> is
  \<open>null\<close>, or the \<open>undefined\<close> of an index out of range (which needs a draw outside
  \<open>[0,1)\<close>).
\<close>

definition triggerEncounter ::
  "handlers \<Rightarrow> string option \<Rightarrow> rat \<Rightarrow> GameLoop \<Rightarrow> Encounter option \<times> GameLoop" where
  "triggerEncounter h encounterId random g =
     (case getCurrentZone g of
        None \<Rightarrow> (None, g)
      | Some zone \<Rightarrow>
          let eligible = eligibleEncounters g zone in
          if length eligible = 0 then (None, g)
          else
            let encounter =
              (if truthy encounterId
               then (case findEncounter encounterId zone of
                       Some e \<Rightarrow> Some e
                     | None \<Rightarrow> js_index eligible 0)
               else js_index eligible \<lfloor>fl (random * of_nat (length eligible))\<rfloor>)
            in (encounter, emit h (EvEncounter encounter) g))"

definition gainXP :: "handlers \<Rightarrow> jsnum \<Rightarrow> GameLoop \<Rightarrow> GameLoop" where
  "gainXP h amount g =
     (let g1 = g\<lparr>player := (player g)\<lparr>xp := jadd (xp (player g)) amount\<rparr>\<rparr>;
          xpNeeded = fl (level (player g1) * 100)
      in if jge (xp (player g1)) (Num xpNeeded)
         then
           let g2 = g1\<lparr>player := (player g1)\<lparr>xp := jsub (xp (player g1)) (Num xpNeeded)\<rparr>\<rparr>;
               g3 = g2\<lparr>player := (player g2)\<lparr>level := fl (level (player g2) + 1)\<rparr>\<rparr>
           in emit h (EvLevelUp (level (player g3))) g3
         else g1)"

definition captureChance :: "GameLoop \<Rightarrow> Encounter \<Rightarrow> jsnum" where
  "captureChance g encounter =
     jadd (Num (1/2))
       (jmul (jsub (Num (level (player g))) (e_level encounter)) (Num (fl (1/10))))"

definition clampedChance :: "GameLoop \<Rightarrow> Encounter \<Rightarrow> jsnum" where
  "clampedChance g encounter =
     Math_max (Num (fl (1/10))) (Math_min (Num (fl (19/20))) (captureChance g encounter))"

definition capturedOf :: "Encounter \<Rightarrow> CapturedAgent" where
  "capturedOf encounter =
     \<lparr>a_id = e_id encounter, a_name = e_agent_name encounter, a_type = e_type encounter,
      a_level = e_level encounter, a_moves = e_moves encounter,
      a_hp = jmul (e_level encounter) (Num 15),
      a_max_hp = jmul (e_level encounter) (Num 15)\<rparr>"

text \<open>
  The functions are \<open>async\<close>, but none of them waits for anything before its last
  statement: \<open>gainXP\<close> has no \<open>await\<close>, so its body has run when the call in
  \<open>captureAgent\<close> returns its promise. The model is sequential.
\<close>

definition captureAgent ::
  "handlers \<Rightarrow> Encounter \<Rightarrow> rat \<Rightarrow> GameLoop \<Rightarrow> bool \<times> GameLoop" where
  "captureAgent h encounter random g =
     (if jgt (Num random) (clampedChance g encounter) then (False, g)
      else
        let captured = capturedOf encounter;
            g1 = g\<lparr>player := (player g)
                   \<lparr>agents_captured := agents_captured (player g) @ [e_id encounter]\<rparr>\<rparr>;
            g2 = (if length (party (player g1)) < 6
                  then g1\<lparr>player := (player g1)\<lparr>party := party (player g1) @ [captured]\<rparr>\<rparr>
                  else g1);
            g3 = emit h (EvCapture captured) g2
        in (True, gainXP h (e_xp_reward encounter) g3))"

definition getPlayerState :: "GameLoop \<Rightarrow> PlayerState" where
  "getPlayerState g = player g"


text \<open>The environment in which no listener unsubscribes anything.\<close>

definition silent :: handlers where
  "silent l event = []"

text \<open>
  An encounter as the game loop reads it, with every property present: what a caller
  of \<open>captureAgent\<close> passes. Used for concrete runs.
\<close>

definition boss :: "rat \<Rightarrow> rat \<Rightarrow> Encounter" where
  "boss lv reward =
     \<lparr>e_id = ''boss'', e_name = ''Boss'', e_type = ''logic'', e_difficulty = hard,
      e_agent_name = Some ''Boss'', e_level = Num lv, e_moves = Some [],
      e_xp_reward = Num reward\<rparr>"

text \<open>The engine's state with the player's level set, for runs at a given level.\<close>

definition at_level :: "rat \<Rightarrow> GameLoop \<Rightarrow> GameLoop" where
  "at_level lv g = g\<lparr>player := (player g)\<lparr>level := lv\<rparr>\<rparr>"

text \<open>A run of captures, one encounter after the other, each with the draw 0.\<close>

fun capture_all :: "handlers \<Rightarrow> Encounter list \<Rightarrow> GameLoop \<Rightarrow> GameLoop" where
  "capture_all h [] g = g"
| "capture_all h (e # es) g = capture_all h es (snd (captureAgent h e 0 g))"

text \<open>Six captures on a new engine fill the party.\<close>

definition six_captures :: GameLoop where
  "six_captures = capture_all silent (replicate 6 (boss 1 0)) (GameLoop_new ''p'')"

text \<open>A new engine after the capture of every encounter of its starting zone.\<close>

definition explored :: GameLoop where
  "explored = capture_all silent (z_encounters recursion_depths) (GameLoop_new ''p'')"


text \<open>The environment in which listener \<open>l\<close> unsubscribes itself at every call.\<close>

definition leaver :: "nat \<Rightarrow> handlers" where
  "leaver l x event = (if x = l then [l] else [])"


section \<open>Rounding\<close>

declare expo_up.simps [simp del] expo_down.simps [simp del]













lemma fl_zero: "fl 0 = 0"
  by (simp add: fl_def)


text \<open>The doubles that the concrete runs meet.\<close>

lemma fl_tenth: "fl (1/10) = 3602879701896397 / 36028797018963968"
  by code_simp

lemma fl_095: "fl (19/20) = 4278419646001971 / 4503599627370496"
  by code_simp

lemma fl_half: "fl (1/2) = 1/2"
  by code_simp

lemma fl_small:
  "fl 1 = 1" "fl 2 = 2" "fl 15 = 15" "fl 100 = 100" "fl 150 = 150" "fl 200 = 200"
  "fl 250 = 250" "fl 350 = 350" "fl (3/2) = 3/2"
  by code_simp+


lemmas fl_values = fl_zero fl_half fl_tenth fl_095 fl_small

section \<open>Event delivery\<close>

lemmas js_defs = jadd_def jsub_def jmul_def jlt_def jgt_def jge_def Math_min_def Math_max_def
  fl_values

lemmas catalog_defs = ZONES_def recursion_depths_def gateway_nexus_def compute_forge_def
  crystal_observatory_def archive_sanctum_def vault_terminus_def catalog_zone_def
  paradox_daemon_def stack_spirit_def lucidia_sentinel_def routing_ghost_def
  catalog_encounter_def

lemma player_unsubscribe [simp]: "player (unsubscribe u g) = player g"
  and delivered_unsubscribe [simp]: "delivered (unsubscribe u g) = delivered g"
  and listeners_unsubscribe [simp]:
    "listeners (unsubscribe u g) = filter (\<lambda>l. l \<noteq> u) (listeners g)"
  by (simp_all add: unsubscribe_def)

lemma fold_unsubscribe:
  "player (fold unsubscribe us g) = player g \<and>
   delivered (fold unsubscribe us g) = delivered g \<and>
   listeners (fold unsubscribe us g) = filter (\<lambda>l. l \<notin> set us) (listeners g)"
proof (induction us arbitrary: g)
  case Nil
  show ?case by simp
next
  case (Cons u us)
  show ?case by (simp add: Cons.IH conj_commute)
qed

lemma call_listener_fields:
  "player (call_listener h ev l g) = player g \<and>
   delivered (call_listener h ev l g) = delivered g @ [(l, ev)] \<and>
   listeners (call_listener h ev l g) = filter (\<lambda>x. x \<notin> set (h l ev)) (listeners g)"
  by (simp add: call_listener_def fold_unsubscribe)

lemma fold_call_listener:
  "player (fold (call_listener h ev) ls g) = player g \<and>
   delivered (fold (call_listener h ev) ls g) = delivered g @ map (\<lambda>l. (l, ev)) ls \<and>
   listeners (fold (call_listener h ev) ls g) =
     filter (\<lambda>x. \<forall>l \<in> set ls. x \<notin> set (h l ev)) (listeners g)"
proof (induction ls arbitrary: g)
  case Nil
  show ?case by simp
next
  case (Cons l ls)
  show ?case by (simp add: Cons.IH call_listener_fields conj_commute)
qed

lemma player_emit [simp]: "player (emit h ev g) = player g"
  by (simp add: emit_def fold_call_listener)

lemma delivered_emit:
  "delivered (emit h ev g) = delivered g @ map (\<lambda>l. (l, ev)) (listeners g)"
  by (simp add: emit_def fold_call_listener)

lemma listeners_emit:
  "listeners (emit h ev g) =
     filter (\<lambda>x. \<forall>l \<in> set (listeners g). x \<notin> set (h l ev)) (listeners g)"
  by (simp add: emit_def fold_call_listener)

section \<open>Zone entry\<close>

lemma getZone_compute_forge: "find (\<lambda>z. z_id z = ''compute-forge'') ZONES = Some compute_forge"
  by (simp add: catalog_defs)

lemma getZone_recursion_depths:
  "find (\<lambda>z. z_id z = ''recursion-depths'') ZONES = Some recursion_depths"
  by (simp add: catalog_defs)




text \<open>
  C1. The claim: for every zone of the catalog and every player whose level is below the
  zone's required level, \<open>enterZone\<close> of the zone's id returns false, leaves the current
  zone as it is and emits no event. The code compares the level with the property
  \<open>required_level\<close>, while the catalog's zones carry \<open>requiredLevel\<close>; the comparison
  with \<open>undefined\<close> is false. Run on a new engine with one listener: the player has level
  1, Compute Forge requires level 5, and \<open>enterZone\<close> returns true, moves the player
  into the zone and tells the listener.
\<close>

theorem C1_enterZone_gate_missed:
  "getZone ''compute-forge'' = Some compute_forge \<and>
   level (player (on 0 (GameLoop_new ''p''))) < z_requiredLevel compute_forge \<and>
   fst (enterZone silent ''compute-forge'' (on 0 (GameLoop_new ''p''))) \<and>
   current_zone (player (snd (enterZone silent ''compute-forge'' (on 0 (GameLoop_new ''p'')))))
     = ''compute-forge'' \<and>
   delivered (snd (enterZone silent ''compute-forge'' (on 0 (GameLoop_new ''p''))))
     = [(0, EvZoneEnter compute_forge)]"
  by (simp add: getZone_def enterZone_def getZone_compute_forge delivered_emit jlt_def
      on_def GameLoop_new_def)
     (simp add: compute_forge_def catalog_zone_def)

section \<open>Experience and levels\<close>

text \<open>
  C2. The claim: after every gain of experience \<open>xp < level * 100\<close>, the surplus rolling
  over as many levels as it pays for, so that a gain of 250 at level 1 with 0 xp ends at
  level 3 with 50 xp. \<open>gainXP\<close> tests the threshold once: the gain of 250 ends at level
  2 with 150 xp (also when it comes from a capture), and a gain of 350 ends at level 2
  with 250 xp, which is not below 200.
\<close>

theorem C2_gainXP_single_check:
  "level (player (gainXP silent (Num 250) (GameLoop_new ''p''))) = 2 \<and>
   xp (player (gainXP silent (Num 250) (GameLoop_new ''p''))) = Num 150 \<and>
   fst (captureAgent silent (boss 1 250) 0 (GameLoop_new ''p'')) \<and>
   level (player (snd (captureAgent silent (boss 1 250) 0 (GameLoop_new ''p'')))) = 2 \<and>
   xp (player (snd (captureAgent silent (boss 1 250) 0 (GameLoop_new ''p'')))) = Num 150 \<and>
   level (player (gainXP silent (Num 350) (GameLoop_new ''p''))) = 2 \<and>
   xp (player (gainXP silent (Num 350) (GameLoop_new ''p''))) = Num 250 \<and>
   \<not> jlt (xp (player (gainXP silent (Num 350) (GameLoop_new ''p''))))
          (Num (level (player (gainXP silent (Num 350) (GameLoop_new ''p''))) * 100))"
  by (simp add: gainXP_def captureAgent_def clampedChance_def captureChance_def boss_def
      GameLoop_new_def js_defs Let_def)

section \<open>Capture\<close>

lemma jgt_Num: "jgt (Num a) (Num b) = (b < a)"
  by (simp add: jgt_def)

lemma captureAgent_result:
  "fst (captureAgent h encounter random g) = (\<not> jgt (Num random) (clampedChance g encounter))"
  by (simp add: captureAgent_def Let_def)

text \<open>
  For an encounter whose level is a number, the chance is some double between the
  doubles 0.1 and 0.95, and the capture succeeds exactly for the draws up to it.
\<close>

lemma clampedChance_numeric:
  assumes "e_level encounter = Num el"
  shows "\<exists>c. clampedChance g encounter = Num c \<and> fl (1/10) \<le> c \<and> c \<le> fl (19/20) \<and>
           (fst (captureAgent h encounter random g) \<longleftrightarrow> random \<le> c)"
proof -
  let ?c = "max (fl (1/10))
      (min (fl (19/20)) (fl (1/2 + fl (fl (level (player g) - el) * fl (1/10)))))"
  have c: "clampedChance g encounter = Num ?c"
    using assms
    by (simp add: clampedChance_def captureChance_def jadd_def jsub_def jmul_def
        Math_min_def Math_max_def)
  have "fl (1/10) \<le> fl (19/20)" by (simp add: fl_tenth fl_095)
  then have hi: "?c \<le> fl (19/20)" by (simp add: max_def min_def)
  have lo: "fl (1/10) \<le> ?c" by (simp add: max_def)
  have "fst (captureAgent h encounter random g) \<longleftrightarrow> random \<le> ?c"
    unfolding captureAgent_result c jgt_Num by (rule not_less)
  with c lo hi show ?thesis by blast
qed

text \<open>
  At player level 1 against encounter level 50 the chance is the double 0.1, at level
  50 against level 1 the double 0.95. At level 1 against level 2 it is the double 0.4,
  which lies above 2/5, and a draw equal to it captures; at level 1 against level 4 it
  is 0.19999999999999996, at level 4 against level 1 the double 0.8.
\<close>

lemma clampedChance_examples:
  "clampedChance (at_level 1 (GameLoop_new ''p'')) (boss 50 10) = Num (fl (1/10))"
  "clampedChance (at_level 50 (GameLoop_new ''p'')) (boss 1 10) = Num (fl (19/20))"
  "clampedChance (at_level 1 (GameLoop_new ''p'')) (boss 2 10)
     = Num (3602879701896397 / 9007199254740992)"
  "fst (captureAgent silent (boss 2 10) (3602879701896397 / 9007199254740992)
          (at_level 1 (GameLoop_new ''p'')))"
  "clampedChance (at_level 1 (GameLoop_new ''p'')) (boss 4 10)
     = Num (900719925474099 / 4503599627370496)"
  "clampedChance (at_level 4 (GameLoop_new ''p'')) (boss 1 10)
     = Num (3602879701896397 / 4503599627370496)"
  by code_simp+

text \<open>No encounter of the catalog has a level or an xp reward.\<close>

lemma encounter_catalog:
  "zone \<in> set ZONES \<Longrightarrow> e \<in> set (z_encounters zone) \<Longrightarrow>
   e_level e = Undefined \<and> e_xp_reward e = Undefined"
  by (auto simp: catalog_defs)

text \<open>So its chance is \<open>NaN\<close>, no draw is above it, and every capture succeeds.\<close>

lemma catalog_capture_always:
  assumes "zone \<in> set ZONES" and "e \<in> set (z_encounters zone)"
  shows "clampedChance g e = NaN \<and> fst (captureAgent h e random g)"
proof -
  have "e_level e = Undefined" using encounter_catalog [OF assms] by simp
  then have "clampedChance g e = NaN"
    by (simp add: clampedChance_def captureChance_def jadd_def jsub_def jmul_def
        Math_min_def Math_max_def)
  then show ?thesis by (simp add: captureAgent_result jgt_def)
qed

text \<open>
  C3. The claim: for every player level and encounter level the chance that
  \<open>captureAgent\<close> compares the draw with is \<open>0.5 + (playerLevel - encounterLevel) * 0.1\<close>
  clamped into \<open>[0.1, 0.95]\<close>, and the capture succeeds exactly when the draw is at most
  that chance. The code reads \<open>encounter.level\<close>, a property that no encounter of the
  catalog has. Run on a new engine: \<open>triggerEncounter\<close> yields the Paradox Daemon, its
  chance is \<open>NaN\<close>, which the clamp lets through, and the capture succeeds with the
  draw 0.984375, above 0.95.
\<close>

theorem C3_catalog_chance_unclamped:
  "fst (triggerEncounter silent (Some ''paradox-daemon'') 0 (GameLoop_new ''p''))
     = Some paradox_daemon \<and>
   e_level paradox_daemon = Undefined \<and>
   captureChance (GameLoop_new ''p'') paradox_daemon = NaN \<and>
   clampedChance (GameLoop_new ''p'') paradox_daemon = NaN \<and>
   fl (19/20) < 63/64 \<and>
   fst (captureAgent silent paradox_daemon (63/64) (GameLoop_new ''p''))"
proof -
  have z: "getCurrentZone (GameLoop_new ''p'') = Some recursion_depths"
    by (simp add: getCurrentZone_def GameLoop_new_def getZone_recursion_depths)
  have "eligibleEncounters (GameLoop_new ''p'') recursion_depths = z_encounters recursion_depths"
    by (simp add: eligibleEncounters_def GameLoop_new_def)
  then have e: "length (eligibleEncounters (GameLoop_new ''p'') recursion_depths) \<noteq> 0"
    by (simp add: recursion_depths_def catalog_zone_def)
  have f: "findEncounter (Some ''paradox-daemon'') recursion_depths = Some paradox_daemon"
    by (simp add: findEncounter_def catalog_defs)
  have t: "fst (triggerEncounter silent (Some ''paradox-daemon'') 0 (GameLoop_new ''p''))
      = Some paradox_daemon"
    using e by (simp add: triggerEncounter_def z f Let_def)
  have l: "e_level paradox_daemon = Undefined"
    by (simp add: paradox_daemon_def catalog_encounter_def)
  have c: "captureChance (GameLoop_new ''p'') paradox_daemon = NaN"
    by (simp add: captureChance_def l jadd_def jsub_def jmul_def)
  have cc: "clampedChance (GameLoop_new ''p'') paradox_daemon = NaN"
    by (simp add: clampedChance_def c Math_min_def Math_max_def)
  have s: "fst (captureAgent silent paradox_daemon (63/64) (GameLoop_new ''p''))"
    by (simp add: captureAgent_result cc jgt_def)
  have "fl (19/20) < 63/64" by (simp add: fl_095)
  with t l c cc s show ?thesis by blast
qed

text \<open>
  C4. When the draw is above the chance, \<open>captureAgent\<close> returns false and the engine is
  as it was: the player's state is unchanged and no listener has been called. More
  generally, whenever \<open>captureAgent\<close> returns false the engine is as it was.
\<close>

theorem C4_failed_capture_changes_nothing:
  "(jgt (Num random) (clampedChance g encounter) \<longrightarrow>
      captureAgent h encounter random g = (False, g)) \<and>
   (\<not> fst (captureAgent h encounter random g) \<longrightarrow>
      snd (captureAgent h encounter random g) = g)"
  by (simp add: captureAgent_def Let_def)

theorem C4_failed_capture_changes_nothing_witness:
  "jgt (Num (99/100)) (clampedChance (on 0 (GameLoop_new ''p'')) (boss 1 10)) \<and>
   captureAgent silent (boss 1 10) (99/100) (on 0 (GameLoop_new ''p''))
     = (False, on 0 (GameLoop_new ''p'')) \<and>
   \<not> fst (captureAgent silent (boss 1 10) (99/100) (on 0 (GameLoop_new ''p''))) \<and>
   snd (captureAgent silent (boss 1 10) (99/100) (on 0 (GameLoop_new ''p'')))
     = on 0 (GameLoop_new ''p'')"
proof -
  have a: "jgt (Num (99/100)) (clampedChance (on 0 (GameLoop_new ''p'')) (boss 1 10))"
    by (simp add: clampedChance_def captureChance_def js_defs boss_def on_def GameLoop_new_def)
  show ?thesis
    using C4_failed_capture_changes_nothing
      [of "99/100" "on 0 (GameLoop_new ''p'')" "boss 1 10" silent] a
    by simp
qed

lemma player_gainXP:
  "player (gainXP h amount g) =
     (if jge (jadd (xp (player g)) amount) (Num (fl (level (player g) * 100)))
      then (player g)\<lparr>xp := jsub (jadd (xp (player g)) amount)
                              (Num (fl (level (player g) * 100))),
                       level := fl (level (player g) + 1)\<rparr>
      else (player g)\<lparr>xp := jadd (xp (player g)) amount\<rparr>)"
  by (simp add: gainXP_def Let_def)

lemma player_captureAgent:
  "player (snd (captureAgent h e r g)) =
     (if jgt (Num r) (clampedChance g e) then player g
      else player (gainXP h (e_xp_reward e)
             (g\<lparr>player := (player g)
                 \<lparr>agents_captured := agents_captured (player g) @ [e_id e],
                  party := (if length (party (player g)) < 6
                            then party (player g) @ [capturedOf e] else party (player g))\<rparr>\<rparr>)))"
  by (simp add: captureAgent_def Let_def player_gainXP)




lemma player_enterZone:
  "player (snd (enterZone h zoneId g)) = player g \<or>
   player (snd (enterZone h zoneId g)) = (player g)\<lparr>current_zone := zoneId\<rparr>"
  by (simp add: enterZone_def split: option.splits)

lemma party_enterZone: "party (player (snd (enterZone h zoneId g))) = party (player g)"
  using player_enterZone [of h zoneId g] by auto

lemma player_triggerEncounter:
  "player (snd (triggerEncounter h encounterId random g)) = player g"
  by (simp add: triggerEncounter_def Let_def split: option.splits)

lemma party_gainXP: "party (player (gainXP h amount g)) = party (player g)"
  by (simp add: gainXP_def Let_def)

lemma agents_captured_gainXP:
  "agents_captured (player (gainXP h amount g)) = agents_captured (player g)"
  by (simp add: gainXP_def Let_def)

lemma party_captureAgent:
  "party (player (snd (captureAgent h encounter random g))) =
     (if jgt (Num random) (clampedChance g encounter) \<or> \<not> length (party (player g)) < 6
      then party (player g) else party (player g) @ [capturedOf encounter])"
  by (simp add: captureAgent_def Let_def party_gainXP)

lemma agents_captured_captureAgent:
  "agents_captured (player (snd (captureAgent h encounter random g))) =
     (if jgt (Num random) (clampedChance g encounter) then agents_captured (player g)
      else agents_captured (player g) @ [e_id encounter])"
  by (simp add: captureAgent_def Let_def agents_captured_gainXP)

text \<open>
  C5. Every operation keeps the party at six agents or fewer. With a party of six, a
  capture whose draw succeeds still returns true and appends the encounter's id to
  \<open>agents_captured\<close>, so that no zone's eligible pool holds an encounter of that id
  any more, and the party still has six agents.
\<close>

theorem C5_party_cap:
  assumes "length (party (player g)) \<le> 6"
  shows "length (party (player (on l g))) \<le> 6 \<and>
         length (party (player (unsubscribe l g))) \<le> 6 \<and>
         length (party (player (emit h event g))) \<le> 6 \<and>
         length (party (player (snd (enterZone h zoneId g)))) \<le> 6 \<and>
         length (party (player (snd (triggerEncounter h encounterId r g)))) \<le> 6 \<and>
         length (party (player (gainXP h amount g))) \<le> 6 \<and>
         length (party (player (snd (captureAgent h encounter random g)))) \<le> 6 \<and>
         (length (party (player g)) = 6 \<and> \<not> jgt (Num random) (clampedChance g encounter) \<longrightarrow>
            fst (captureAgent h encounter random g) \<and>
            e_id encounter \<in> set (agents_captured (player (snd (captureAgent h encounter random g)))) \<and>
            length (party (player (snd (captureAgent h encounter random g)))) = 6 \<and>
            (\<forall>e \<in> set (eligibleEncounters (snd (captureAgent h encounter random g)) zone).
               e_id e \<noteq> e_id encounter))"
proof -
  have ops: "length (party (player (on l g))) \<le> 6"
    "length (party (player (unsubscribe l g))) \<le> 6"
    "length (party (player (emit h event g))) \<le> 6"
    "length (party (player (snd (enterZone h zoneId g)))) \<le> 6"
    "length (party (player (snd (triggerEncounter h encounterId r g)))) \<le> 6"
    "length (party (player (gainXP h amount g))) \<le> 6"
    using assms
    by (simp_all add: on_def party_enterZone player_triggerEncounter party_gainXP)
  have cap: "length (party (player (snd (captureAgent h encounter random g)))) \<le> 6"
    using assms by (simp add: party_captureAgent)
  have full: "fst (captureAgent h encounter random g) \<and>
      e_id encounter \<in> set (agents_captured (player (snd (captureAgent h encounter random g)))) \<and>
      length (party (player (snd (captureAgent h encounter random g)))) = 6 \<and>
      (\<forall>e \<in> set (eligibleEncounters (snd (captureAgent h encounter random g)) zone).
         e_id e \<noteq> e_id encounter)"
    if "length (party (player g)) = 6" "\<not> jgt (Num random) (clampedChance g encounter)"
    using that
    by (auto simp: captureAgent_result party_captureAgent agents_captured_captureAgent
        eligibleEncounters_def)
  from ops cap full show ?thesis by blast
qed

text \<open>Concrete runs: with no listener, \<open>emit\<close> does nothing.\<close>

lemma emit_no_listeners: "listeners g = [] \<Longrightarrow> emit h ev g = g"
  by (simp add: emit_def)

lemmas run_defs = captureAgent_def clampedChance_def captureChance_def capturedOf_def
  gainXP_def emit_no_listeners js_defs Let_def

lemma six_captures_state:
  "six_captures = (GameLoop_new ''p'')\<lparr>player := (player (GameLoop_new ''p''))
      \<lparr>agents_captured := replicate 6 ''boss'', party := replicate 6 (capturedOf (boss 1 0))\<rparr>\<rparr>"
  by (simp add: six_captures_def eval_nat_numeral run_defs boss_def GameLoop_new_def)

lemma six_captures_party: "length (party (player six_captures)) = 6"
  by (simp add: six_captures_state)

lemma six_captures_level: "level (player six_captures) = 1"
  by (simp add: six_captures_state GameLoop_new_def)

theorem C5_party_cap_witness:
  "length (party (player six_captures)) \<le> 6 \<and>
   length (party (player six_captures)) = 6 \<and>
   \<not> jgt (Num (1/2)) (clampedChance six_captures (boss 1 10)) \<and>
   fst (captureAgent silent (boss 1 10) (1/2) six_captures) \<and>
   e_id (boss 1 10)
     \<in> set (agents_captured (player (snd (captureAgent silent (boss 1 10) (1/2) six_captures)))) \<and>
   length (party (player (snd (captureAgent silent (boss 1 10) (1/2) six_captures)))) = 6"
proof -
  have a: "length (party (player six_captures)) \<le> 6" by (simp add: six_captures_party)
  have b: "\<not> jgt (Num (1/2)) (clampedChance six_captures (boss 1 10))"
    by (simp add: clampedChance_def captureChance_def js_defs six_captures_level boss_def)
  show ?thesis
    using C5_party_cap [OF a, of 0 silent "EvBattleWin 0" "[]" None 0 NaN "boss 1 10" "1/2"
        recursion_depths] b
    by (simp add: six_captures_party)
qed

lemma explored_captured:
  "agents_captured (player explored) = [''paradox-daemon'', ''stack-spirit'', ''lucidia-sentinel''] \<and>
   current_zone (player explored) = ''recursion-depths''"
  by (simp add: explored_def catalog_defs run_defs GameLoop_new_def)


section \<open>Encounters\<close>

text \<open>
  C6. When the id of every encounter of the current zone is in \<open>agents_captured\<close>,
  \<open>triggerEncounter\<close> returns \<open>null\<close> and leaves the engine as it was (no listener is
  called), whatever id and draw it is given. The result is a value, not an error.
\<close>

theorem C6_exhausted_zone_no_encounter:
  assumes "getCurrentZone g = Some zone"
    and "\<forall>e \<in> set (z_encounters zone). e_id e \<in> set (agents_captured (player g))"
  shows "triggerEncounter h encounterId random g = (None, g)"
proof -
  have "eligibleEncounters g zone = []"
    using assms(2) by (simp add: eligibleEncounters_def)
  with assms(1) show ?thesis by (simp add: triggerEncounter_def)
qed

theorem C6_exhausted_zone_no_encounter_witness:
  "getCurrentZone explored = Some recursion_depths \<and>
   e_id ` set (z_encounters recursion_depths) \<subseteq> set (agents_captured (player explored)) \<and>
   triggerEncounter silent None (1/2) explored = (None, explored) \<and>
   triggerEncounter silent (Some ''stack-spirit'') (1/2) explored = (None, explored)"
proof -
  have a: "getCurrentZone explored = Some recursion_depths"
    by (simp add: getCurrentZone_def explored_captured getZone_recursion_depths)
  have b: "\<forall>e \<in> set (z_encounters recursion_depths).
             e_id e \<in> set (agents_captured (player explored))"
    by (simp add: explored_captured) (simp add: catalog_defs)
  show ?thesis
    using C6_exhausted_zone_no_encounter [OF a b, of silent None "1/2"]
      C6_exhausted_zone_no_encounter [OF a b, of silent "Some ''stack-spirit''" "1/2"] a b
    by auto
qed










lemma new_zone: "getCurrentZone (GameLoop_new n) = Some recursion_depths"
  by (simp add: getCurrentZone_def GameLoop_new_def getZone_recursion_depths)






section \<open>Subscriptions\<close>

text \<open>
  C8. A listener \<open>l\<close> that calls its own unsubscribe function while it is notified:
  \<open>emit\<close> still calls every listener of the list once, in order, those registered
  before \<open>l\<close> and those registered after it, and \<open>l\<close> is no longer subscribed
  afterwards. No error is raised: neither \<open>forEach\<close> nor \<open>filter\<close> throws, and \<open>emit\<close>
  and \<open>unsubscribe\<close> have no failing branch.
\<close>

theorem C8_unsubscribe_during_emit:
  assumes "listeners g = before @ l # after" and "l \<in> set (h l event)"
  shows "delivered (emit h event g)
           = delivered g @ map (\<lambda>x. (x, event)) before @ [(l, event)]
               @ map (\<lambda>x. (x, event)) after \<and>
         (\<forall>x \<in> set before \<union> set after. (x, event) \<in> set (delivered (emit h event g))) \<and>
         l \<notin> set (listeners (emit h event g))"
proof -
  have d: "delivered (emit h event g)
      = delivered g @ map (\<lambda>x. (x, event)) before @ [(l, event)] @ map (\<lambda>x. (x, event)) after"
    by (simp add: delivered_emit assms(1))
  have "\<forall>x \<in> set before \<union> set after. (x, event) \<in> set (delivered (emit h event g))"
    unfolding d by auto
  moreover have "l \<notin> set (listeners (emit h event g))"
    using assms by (auto simp: listeners_emit)
  ultimately show ?thesis using d by blast
qed

theorem C8_unsubscribe_during_emit_witness:
  "listeners (on 3 (on 2 (on 1 (GameLoop_new ''p'')))) = [1] @ 2 # [3] \<and>
   2 \<in> set (leaver 2 2 (EvLevelUp 2)) \<and>
   delivered (emit (leaver 2) (EvLevelUp 2) (on 3 (on 2 (on 1 (GameLoop_new ''p'')))))
     = [(1, EvLevelUp 2), (2, EvLevelUp 2), (3, EvLevelUp 2)] \<and>
   listeners (emit (leaver 2) (EvLevelUp 2) (on 3 (on 2 (on 1 (GameLoop_new ''p''))))) = [1, 3]"
proof -
  have a: "listeners (on 3 (on 2 (on 1 (GameLoop_new ''p'')))) = [1] @ 2 # [3]"
    by (simp add: on_def GameLoop_new_def)
  have b: "2 \<in> set (leaver 2 2 (EvLevelUp 2))" by (simp add: leaver_def)
  have c: "listeners (emit (leaver 2) (EvLevelUp 2) (on 3 (on 2 (on 1 (GameLoop_new ''p'')))))
      = [1, 3]"
    by (simp add: listeners_emit on_def GameLoop_new_def leaver_def)
  have d: "delivered (on 3 (on 2 (on 1 (GameLoop_new ''p'')))) = []"
    by (simp add: on_def GameLoop_new_def)
  show ?thesis
    using C8_unsubscribe_during_emit
      [where h = "leaver 2" and event = "EvLevelUp 2" and l = 2 and before = "[1]"
         and after = "[3]" and g = "on 3 (on 2 (on 1 (GameLoop_new ''p'')))", OF a b]
      a b c d
    by simp
qed

section \<open>The sequence of events\<close>















section \<open>Construction\<close>

text \<open>
  C10. Whatever \<open>playerName\<close> the constructor is given, the new engine is the same:
  level 1, xp 0, nothing captured, an empty party, position (0,0,0) and the current
  zone \<open>recursion-depths\<close>, which is the id of a zone of the catalog. The constructor
  does not store the name, so no operation can depend on it.
\<close>

theorem C10_initial_state:
  "GameLoop_new playerName = GameLoop_new other \<and>
   level (player (GameLoop_new playerName)) = 1 \<and>
   xp (player (GameLoop_new playerName)) = Num 0 \<and>
   agents_captured (player (GameLoop_new playerName)) = [] \<and>
   party (player (GameLoop_new playerName)) = [] \<and>
   position (player (GameLoop_new playerName)) = (0, 0, 0) \<and>
   current_zone (player (GameLoop_new playerName)) = ''recursion-depths'' \<and>
   getCurrentZone (GameLoop_new playerName) = Some recursion_depths \<and>
   z_id recursion_depths = ''recursion-depths'' \<and>
   recursion_depths \<in> set ZONES"
  by (simp add: new_zone) (simp add: GameLoop_new_def ZONES_def recursion_depths_def catalog_zone_def)

end
